theory Spec2Isabelle
  imports Complex_Main
begin

section \<open>Data model\<close>

text \<open>
  The task client is a browser application: a session store (\<^verbatim>\<open>src/store/authStore.ts\<close>),
  a login form (\<^verbatim>\<open>src/app/login/page.tsx\<close>), a guard around the protected views
  (\<^verbatim>\<open>src/app/(protected)/layout.tsx\<close>) and the task list view
  (\<^verbatim>\<open>src/app/(protected)/page.tsx\<close>).

  The embedding passes the state explicitly. Everything a handler does to the outside
  world is appended to a log kept in the state: the HTTP requests it issues, the
  notifications it shows and the routes it pushes. What the remote API answers is an
  argument of the handler, a value of a sum type: \<open>Inl\<close> the error axios throws,
  \<open>Inr\<close> the data of a 2xx response.

  JavaScript strings are \<open>string\<close>; the user-facing texts are kept in ASCII, their
  Portuguese accents dropped. JavaScript numbers that hold counts and page numbers are
  \<open>int\<close>.
\<close>

subsection \<open>Session store (authStore.ts)\<close>

record User =
  user_id :: string
  user_name :: string
  user_email :: string

record AuthState =
  token :: "string option"
  user :: "User option"

text \<open>
  The store's \<^verbatim>\<open>set\<close> takes a partial state and merges it into the current one: a key
  the partial object does not have keeps its value.
\<close>

datatype 'a upd = Keep | Put 'a

record AuthPartial =
  p_token :: "string option upd"
  p_user :: "User option upd"

definition merge :: "'a upd \<Rightarrow> 'a \<Rightarrow> 'a" where
  "merge u old = (case u of Keep \<Rightarrow> old | Put v \<Rightarrow> v)"

definition set_state :: "AuthPartial \<Rightarrow> AuthState \<Rightarrow> AuthState" where
  "set_state p s = \<lparr>token = merge (p_token p) (token s), user = merge (p_user p) (user s)\<rparr>"

definition initial_AuthState :: AuthState where
  "initial_AuthState = \<lparr>token = None, user = None\<rparr>"

definition setToken :: "string option \<Rightarrow> AuthState \<Rightarrow> AuthState" where
  "setToken t = set_state \<lparr>p_token = Put t, p_user = Keep\<rparr>"

definition setUser :: "User option \<Rightarrow> AuthState \<Rightarrow> AuthState" where
  "setUser u = set_state \<lparr>p_token = Keep, p_user = Put u\<rparr>"

definition clearAuth :: "AuthState \<Rightarrow> AuthState" where
  "clearAuth = set_state \<lparr>p_token = Put None, p_user = Put None\<rparr>"

subsection \<open>Effects: requests, notifications, navigation\<close>

datatype Status = CRIADO | ANDAMENTO | CONCLUIDO

record Task =
  task_id :: string
  task_title :: string
  task_description :: string
  task_status :: Status
  task_userId :: string
  task_createdAt :: string
  task_updatedAt :: string

record LoginFormValues =
  l_email :: string
  l_password :: string

text \<open>An optional key of a form's values is an \<open>option\<close>: \<open>None\<close> is undefined.\<close>

record CreateTaskFormValues =
  c_title :: string
  c_description :: "string option"

record UpdateTaskFormValues =
  u_id :: string
  u_title :: "string option"
  u_description :: "string option"
  u_status :: "Status option"

datatype Method = GET | POST | PUT | DELETE

datatype Body =
  LoginBody LoginFormValues
| CreateBody CreateTaskFormValues
| UpdateBody UpdateTaskFormValues

text \<open>
  A request as axios receives it. \<open>query\<close> holds the entries of the
  \<^verbatim>\<open>URLSearchParams\<close> object in the order they were appended; its serialisation after
  the \<^verbatim>\<open>?\<close> of the URL is the platform's. \<open>authorization\<close> is the value of the
  Authorization header, \<open>None\<close> when the call sets no header.
\<close>

record Request =
  http_method :: Method
  url :: string
  query :: "(string \<times> string) list"
  authorization :: "string option"
  body :: "Body option"

datatype Toast = toast_success string | toast_error string

text \<open>
  What axios throws. \<open>None\<close> is an error with no \<^verbatim>\<open>response\<close> (a network failure);
  otherwise \<open>status\<close> is \<^verbatim>\<open>error.response.status\<close> and \<open>message\<close> is
  \<^verbatim>\<open>error.response.data?.message\<close>.
\<close>

record ErrorResponse =
  status :: int
  message :: "string option"

type_synonym AxiosError = "ErrorResponse option"

record LoginResponse =
  r_token :: "string option"
  r_user :: "User option"

record TaskListResponse =
  items :: "Task list"
  totalItems :: int

subsection \<open>The application state\<close>

datatype FilterStatus = FilterAll | FilterStatus Status

text \<open>
  One record for the store and for the \<^verbatim>\<open>useState\<close> cells of the three components.
  \<open>layout_loading\<close> is the guard's \<^verbatim>\<open>loading\<close>, \<open>login_loading\<close> the login page's.
  \<open>createTaskForm\<close> holds the current field values of the creation form and
  \<open>createTaskErrors\<close> the messages of its last failed validation.
\<close>

record App =
  auth :: AuthState
  pushes :: "string list"
  toasts :: "Toast list"
  requests :: "Request list"
  layout_loading :: bool
  login_loading :: bool
  tasks :: "Task list"
  loadingTasks :: bool
  isCreating :: bool
  isEditing :: bool
  editingTask :: "Task option"
  isConfirmingDelete :: bool
  taskToDelete :: "string option"
  currentPage :: int
  pageSize :: int
  totalTasks :: int
  searchTerm :: string
  filterStatus :: FilterStatus
  createTaskForm :: CreateTaskFormValues
  createTaskErrors :: "string list"

definition createTask_defaultValues :: CreateTaskFormValues where
  "createTask_defaultValues = \<lparr>c_title = [], c_description = Some []\<rparr>"

definition initial_App :: App where
  "initial_App =
     \<lparr>auth = initial_AuthState, pushes = [], toasts = [], requests = [],
      layout_loading = True, login_loading = False,
      tasks = [], loadingTasks = True, isCreating = False, isEditing = False,
      editingTask = None, isConfirmingDelete = False, taskToDelete = None,
      currentPage = 1, pageSize = 10, totalTasks = 0, searchTerm = [],
      filterStatus = FilterAll, createTaskForm = createTask_defaultValues,
      createTaskErrors = []\<rparr>"

definition router_push :: "string \<Rightarrow> App \<Rightarrow> App" where
  "router_push path st = st\<lparr>pushes := pushes st @ [path]\<rparr>"

definition toast :: "Toast \<Rightarrow> App \<Rightarrow> App" where
  "toast t st = st\<lparr>toasts := toasts st @ [t]\<rparr>"

definition axios :: "Request \<Rightarrow> App \<Rightarrow> App" where
  "axios r st = st\<lparr>requests := requests st @ [r]\<rparr>"

definition store :: "(AuthState \<Rightarrow> AuthState) \<Rightarrow> App \<Rightarrow> App" where
  "store f st = st\<lparr>auth := f (auth st)\<rparr>"

text \<open>\<^verbatim>\<open>!token\<close>: null and the empty string are falsy.\<close>

definition truthy :: "string option \<Rightarrow> bool" where
  "truthy t = (case t of None \<Rightarrow> False | Some s \<Rightarrow> s \<noteq> [])"

text \<open>The template \<^verbatim>\<open>`Bearer ${token}`\<close>: a null token prints as \<^verbatim>\<open>null\<close>.\<close>

definition Bearer :: "string option \<Rightarrow> string" where
  "Bearer t = ''Bearer '' @ (case t of None \<Rightarrow> ''null'' | Some s \<Rightarrow> s)"

text \<open>\<^verbatim>\<open>error.response?.data?.message || fallback\<close>\<close>

definition error_message :: "AxiosError \<Rightarrow> string \<Rightarrow> string" where
  "error_message error fallback =
     (case error of
        None \<Rightarrow> fallback
      | Some r \<Rightarrow> (case message r of
                    None \<Rightarrow> fallback
                  | Some m \<Rightarrow> if m = [] then fallback else m))"

text \<open>\<^verbatim>\<open>error.response?.status === 401\<close>\<close>

definition is_401 :: "AxiosError \<Rightarrow> bool" where
  "is_401 error = (case error of None \<Rightarrow> False | Some r \<Rightarrow> status r = 401)"

subsection \<open>Login form (login/page.tsx)\<close>

text \<open>
  \<open>onSubmit\<close> runs once the form library has validated the values. The store is
  written by \<open>setToken\<close> and then \<open>setUser\<close>; the \<^verbatim>\<open>finally\<close> block clears the
  loading flag on both paths.
\<close>

definition onSubmit :: "LoginFormValues \<Rightarrow> AxiosError + LoginResponse \<Rightarrow> App \<Rightarrow> App" where
  "onSubmit values response st =
     (let st1 = st\<lparr>login_loading := True\<rparr>;
          st2 = axios \<lparr>http_method = POST, url = ''http://localhost:3333/user/login'',
                       query = [], authorization = None,
                       body = Some (LoginBody values)\<rparr> st1;
          st3 = (case response of
                   Inr data \<Rightarrow>
                     router_push ''/''
                       (store (setUser (r_user data))
                         (store (setToken (r_token data))
                           (toast (toast_success ''Login realizado com sucesso!'') st2)))
                 | Inl error \<Rightarrow>
                     toast (toast_error
                       (error_message error ''Erro ao fazer login. Tente novamente.'')) st2)
      in st3\<lparr>login_loading := False\<rparr>)"

subsection \<open>Session guard (layout.tsx)\<close>

text \<open>
  \<open>verifyAuth\<close> is the body of the guard's effect. Its \<^verbatim>\<open>catch\<close> block does not look
  at the error: every failure of the profile request clears the session.
\<close>

definition verifyAuth :: "AxiosError + User \<Rightarrow> App \<Rightarrow> App" where
  "verifyAuth response st =
     (if \<not> truthy (token (auth st)) then
        (toast (toast_error ''Voce precisa estar logado para acessar esta pagina.'')
          (router_push ''/login'' st))\<lparr>layout_loading := False\<rparr>
      else if user (auth st) \<noteq> None then st\<lparr>layout_loading := False\<rparr>
      else
        (let st1 = axios \<lparr>http_method = GET, url = ''http://localhost:3333/user/profile'',
                          query = [], authorization = Some (Bearer (token (auth st))),
                          body = None\<rparr> st
         in (case response of
               Inr data \<Rightarrow> (store (setUser (Some data)) st1)\<lparr>layout_loading := False\<rparr>
             | Inl error \<Rightarrow>
                 (router_push ''/login''
                   (store clearAuth
                     (toast (toast_error
                        ''Sessao expirada ou invalida. Faca login novamente.'') st1)))
                 \<lparr>layout_loading := False\<rparr>)))"

text \<open>What the guard renders: the loading indicator, the children, or nothing.\<close>

datatype GuardView = Checking | Authorized | Redirecting

definition ProtectedLayout :: "App \<Rightarrow> GuardView" where
  "ProtectedLayout st =
     (if layout_loading st then Checking
      else if truthy (token (auth st)) \<and> user (auth st) \<noteq> None then Authorized
      else Redirecting)"

subsection \<open>Task list view (page.tsx): the list request\<close>

text \<open>\<^verbatim>\<open>Number.prototype.toString\<close> on an integer: its decimal digits, a minus sign first.\<close>

definition digit :: "nat \<Rightarrow> char" where
  "digit d = ''0123456789'' ! d"

function toString_nat :: "nat \<Rightarrow> string" where
  "toString_nat n =
     (if n < 10 then [digit n] else toString_nat (n div 10) @ [digit (n mod 10)])"
  by pat_completeness auto
termination
  by (relation "measure (\<lambda>n. n)") auto

declare toString_nat.simps [simp del]

definition toString :: "int \<Rightarrow> string" where
  "toString i = (if i < 0 then CHR ''-'' # toString_nat (nat (- i)) else toString_nat (nat i))"

definition Status_value :: "Status \<Rightarrow> string" where
  "Status_value s =
     (case s of CRIADO \<Rightarrow> ''CRIADO'' | ANDAMENTO \<Rightarrow> ''ANDAMENTO'' | CONCLUIDO \<Rightarrow> ''CONCLUIDO'')"

definition FilterStatus_value :: "FilterStatus \<Rightarrow> string" where
  "FilterStatus_value f = (case f of FilterAll \<Rightarrow> ''all'' | FilterStatus s \<Rightarrow> Status_value s)"

type_synonym URLSearchParams = "(string \<times> string) list"

definition append :: "string \<Rightarrow> string \<Rightarrow> URLSearchParams \<Rightarrow> URLSearchParams" where
  "append k v params = params @ [(k, v)]"

text \<open>
  The parameters \<open>fetchTasks\<close> builds from the query state it closes over. The search
  term and the status filter are each appended under a guard.
\<close>

definition fetchTasks_params :: "int \<Rightarrow> int \<Rightarrow> string \<Rightarrow> FilterStatus \<Rightarrow> URLSearchParams" where
  "fetchTasks_params page psize search fstatus =
     (let params = [];
          params = append ''page'' (toString page) params;
          params = append ''pageSize'' (toString psize) params;
          params = (if search \<noteq> [] then append ''search'' search params else params);
          params = (if FilterStatus_value fstatus \<noteq> [] \<and> FilterStatus_value fstatus \<noteq> ''all''
                    then append ''status'' (FilterStatus_value fstatus) params else params)
      in params)"

definition fetchTasks_request :: "App \<Rightarrow> Request" where
  "fetchTasks_request st =
     \<lparr>http_method = GET, url = ''http://localhost:3333/task'',
      query = fetchTasks_params (currentPage st) (pageSize st) (searchTerm st) (filterStatus st),
      authorization = Some (Bearer (token (auth st))), body = None\<rparr>"

definition fetchTasks :: "AxiosError + TaskListResponse \<Rightarrow> App \<Rightarrow> App" where
  "fetchTasks response st =
     (if \<not> truthy (token (auth st)) then st\<lparr>loadingTasks := False\<rparr>
      else
        (let st1 = st\<lparr>loadingTasks := True\<rparr>;
             st2 = axios (fetchTasks_request st1) st1;
             st3 = (case response of
                      Inr data \<Rightarrow> st2\<lparr>tasks := items data, totalTasks := totalItems data\<rparr>
                    | Inl error \<Rightarrow>
                        (let st' = toast (toast_error
                                     (error_message error ''Erro ao carregar tarefas.'')) st2
                         in if is_401 error then router_push ''/login'' (store clearAuth st')
                            else st'))
         in st3\<lparr>loadingTasks := False\<rparr>))"

definition handleLogout :: "App \<Rightarrow> App" where
  "handleLogout st = router_push ''/login'' (store clearAuth st)"

subsection \<open>Task list view: create, update, delete\<close>

text \<open>
  \<open>createTaskSchema\<close> is the zod schema of the creation form: the title is a string
  of at least 3 characters, the description an optional string. It returns the messages
  of the failed checks, or the parsed values.
\<close>

definition createTaskSchema :: "CreateTaskFormValues \<Rightarrow> string list + CreateTaskFormValues" where
  "createTaskSchema v =
     (if 3 \<le> length (c_title v) then Inr v
      else Inl [''O titulo deve ter no minimo 3 caracteres.''])"

text \<open>
  Each of the three handlers issues its request, and on success shows a notification,
  closes its dialog and calls \<open>fetchTasks\<close>; \<open>list_response\<close> is what the API answers
  to that list request. Their \<^verbatim>\<open>catch\<close> blocks show a notification and nothing else.
\<close>

definition handleCreateTask_request :: "CreateTaskFormValues \<Rightarrow> App \<Rightarrow> Request" where
  "handleCreateTask_request values st =
     \<lparr>http_method = POST, url = ''http://localhost:3333/task'',
      query = [], authorization = Some (Bearer (token (auth st))),
      body = Some (CreateBody values)\<rparr>"

definition handleCreateTask ::
  "CreateTaskFormValues \<Rightarrow> AxiosError + unit \<Rightarrow> AxiosError + TaskListResponse \<Rightarrow> App \<Rightarrow> App" where
  "handleCreateTask values response list_response st =
     (let st1 = axios (handleCreateTask_request values st) st
      in (case response of
            Inr _ \<Rightarrow>
              fetchTasks list_response
                ((toast (toast_success ''Tarefa criada com sucesso!'') st1)
                   \<lparr>createTaskForm := createTask_defaultValues, isCreating := False\<rparr>)
          | Inl error \<Rightarrow>
              toast (toast_error (error_message error ''Erro ao criar tarefa.'')) st1))"

text \<open>
  \<^verbatim>\<open>createTaskForm.handleSubmit(handleCreateTask)\<close>: the form's values go through the
  schema, and the handler runs only on the values the schema accepts.
\<close>

definition createTaskForm_handleSubmit ::
  "AxiosError + unit \<Rightarrow> AxiosError + TaskListResponse \<Rightarrow> App \<Rightarrow> App" where
  "createTaskForm_handleSubmit response list_response st =
     (case createTaskSchema (createTaskForm st) of
        Inl errors \<Rightarrow> st\<lparr>createTaskErrors := errors\<rparr>
      | Inr values \<Rightarrow>
          handleCreateTask values response list_response (st\<lparr>createTaskErrors := []\<rparr>))"

definition handleUpdateTask ::
  "UpdateTaskFormValues \<Rightarrow> AxiosError + unit \<Rightarrow> AxiosError + TaskListResponse \<Rightarrow> App \<Rightarrow> App" where
  "handleUpdateTask values response list_response st =
     (case editingTask st of
        None \<Rightarrow> st
      | Some task \<Rightarrow>
          (let st1 = axios \<lparr>http_method = PUT, url = ''http://localhost:3333/task/'' @ task_id task,
                            query = [], authorization = Some (Bearer (token (auth st))),
                            body = Some (UpdateBody values)\<rparr> st
           in (case response of
                 Inr _ \<Rightarrow>
                   fetchTasks list_response
                     ((toast (toast_success ''Tarefa atualizada com sucesso!'') st1)
                        \<lparr>isEditing := False, editingTask := None\<rparr>)
               | Inl error \<Rightarrow>
                   toast (toast_error (error_message error ''Erro ao atualizar tarefa.'')) st1)))"

definition handleDeleteConfirmation :: "string \<Rightarrow> App \<Rightarrow> App" where
  "handleDeleteConfirmation taskId st = st\<lparr>taskToDelete := Some taskId, isConfirmingDelete := True\<rparr>"

text \<open>\<^verbatim>\<open>if (!taskToDelete) return\<close>: null and the empty id both return at once.\<close>

definition handleDeleteTask ::
  "AxiosError + unit \<Rightarrow> AxiosError + TaskListResponse \<Rightarrow> App \<Rightarrow> App" where
  "handleDeleteTask response list_response st =
     (case taskToDelete st of
        None \<Rightarrow> st
      | Some taskId \<Rightarrow>
          if taskId = [] then st
          else
            (let st1 = axios \<lparr>http_method = DELETE,
                              url = ''http://localhost:3333/task/'' @ taskId,
                              query = [], authorization = Some (Bearer (token (auth st))),
                              body = None\<rparr> st
             in (case response of
                   Inr _ \<Rightarrow>
                     fetchTasks list_response
                       ((toast (toast_success ''Tarefa excluida com sucesso!'') st1)
                          \<lparr>isConfirmingDelete := False, taskToDelete := None\<rparr>)
                 | Inl error \<Rightarrow>
                     toast (toast_error (error_message error ''Erro ao excluir tarefa.'')) st1)))"

subsection \<open>Task list view: pagination\<close>

text \<open>
  The quotient \<^verbatim>\<open>totalTasks / pageSize\<close> is a division of doubles: the exact quotient
  rounded to the nearest number with a significand of 53 bits, a tie going to the even
  significand. The operands are integers that doubles hold. For positive \<open>a\<close> and
  \<open>b\<close> the quotient is scaled by a power of two into \<open>[2^52, 2^53)\<close>, rounded to an
  integer and scaled back: \<open>scale_up\<close> counts the doublings of the dividend that
  bring a small quotient up to \<open>2^52\<close>, \<open>scale_down\<close> the doublings of the divisor
  that bring a large one below \<open>2^53\<close>. Overflow and gradual underflow are not
  modelled: the quotient of two integers of magnitude below \<open>2^1022\<close> meets neither.
\<close>

function scale_up :: "int \<Rightarrow> int \<Rightarrow> nat" where
  "scale_up n d = (if 0 < n \<and> n < d then Suc (scale_up (2 * n) d) else 0)"
  by pat_completeness auto
termination
  by (relation "measure (\<lambda>(n, d). nat (d - n))") auto

declare scale_up.simps [simp del]

function scale_down :: "int \<Rightarrow> int \<Rightarrow> nat" where
  "scale_down n d = (if 0 < d \<and> 2 ^ 53 * d \<le> n then Suc (scale_down n (2 * d)) else 0)"
  by pat_completeness auto
termination
  by (relation "measure (\<lambda>(n, d). nat (n - d))") auto

declare scale_down.simps [simp del]

definition round_half_even :: "int \<Rightarrow> int \<Rightarrow> int" where
  "round_half_even n d =
     (let q = n div d; r = n mod d
      in if 2 * r < d then q
         else if d < 2 * r then q + 1
         else if even q then q else q + 1)"

definition double_div_pos :: "int \<Rightarrow> int \<Rightarrow> real" where
  "double_div_pos a b =
     (let s = scale_up a (2 ^ 52 * b);
          t = scale_down a b;
          m = round_half_even (a * 2 ^ s) (b * 2 ^ t)
      in real_of_int m * 2 ^ t / 2 ^ s)"

definition double_div :: "int \<Rightarrow> int \<Rightarrow> real" where
  "double_div a b =
     (if a = 0 then 0
      else real_of_int (sgn a * sgn b) * double_div_pos \<bar>a\<bar> \<bar>b\<bar>)"

text \<open>
  \<^verbatim>\<open>Math.ceil(totalTasks / pageSize)\<close>: the ceiling of the double quotient, itself an
  integer a double holds. With a page size of 0 the JavaScript quotient is not a number
  or infinite: \<open>None\<close>.
\<close>

definition totalPages :: "App \<Rightarrow> int option" where
  "totalPages st =
     (if pageSize st = 0 then None
      else Some \<lceil>double_div (totalTasks st) (pageSize st)\<rceil>)"

text \<open>
  The pagination block stands in the branch of the view with the user loaded, the list
  neither loading nor empty, under \<^verbatim>\<open>totalPages > 1\<close>. With a page size of 0 that test
  is true of the infinite quotient of a positive count only.
\<close>

definition Pagination_rendered :: "App \<Rightarrow> bool" where
  "Pagination_rendered st =
     (user (auth st) \<noteq> None \<and> \<not> loadingTasks st \<and> tasks st \<noteq> [] \<and>
      (case totalPages st of Some n \<Rightarrow> 1 < n | None \<Rightarrow> 0 < totalTasks st))"

text \<open>
  The click handlers of the previous and next controls, as updates of the current page;
  \<open>tp\<close> is the total page count of the render they belong to. The \<open>disabled\<close>
  predicates are the conditions under which the controls carry \<^verbatim>\<open>aria-disabled\<close> and the
  \<^verbatim>\<open>pointer-events-none\<close> class.
\<close>

definition PaginationPrevious_onClick :: "int \<Rightarrow> int" where
  "PaginationPrevious_onClick prev = max 1 (prev - 1)"

definition PaginationNext_onClick :: "int \<Rightarrow> int \<Rightarrow> int" where
  "PaginationNext_onClick tp prev = min tp (prev + 1)"

definition PaginationPrevious_disabled :: "App \<Rightarrow> bool" where
  "PaginationPrevious_disabled st = (currentPage st = 1)"

definition PaginationNext_disabled :: "int \<Rightarrow> App \<Rightarrow> bool" where
  "PaginationNext_disabled tp st = (currentPage st = tp)"

definition setCurrentPage :: "(int \<Rightarrow> int) \<Rightarrow> App \<Rightarrow> App" where
  "setCurrentPage f st = st\<lparr>currentPage := f (currentPage st)\<rparr>"

subsection \<open>Example values\<close>

text \<open>A user, a task and a logged-in state of the task list view, for concrete runs.\<close>

definition user0 :: User where
  "user0 = \<lparr>user_id = ''u1'', user_name = ''A'', user_email = ''a@b.com''\<rparr>"

definition task0 :: Task where
  "task0 = \<lparr>task_id = ''id123'', task_title = ''Buy milk'', task_description = [],
            task_status = CRIADO, task_userId = ''u1'', task_createdAt = [],
            task_updatedAt = []\<rparr>"

definition logged_in :: App where
  "logged_in = initial_App\<lparr>auth := \<lparr>token = Some ''t1'', user = Some user0\<rparr>,
                            layout_loading := False\<rparr>"

definition task1 :: Task where
  "task1 = \<lparr>task_id = ''123e4567-e89b-12d3-a456-426614174000'', task_title = ''Walk the dog'',
            task_description = [], task_status = ANDAMENTO, task_userId = ''u1'',
            task_createdAt = [], task_updatedAt = []\<rparr>"

text \<open>The logged-in state with a task open in the edit dialog and one selected for deletion.\<close>

definition selected :: App where
  "selected = logged_in\<lparr>editingTask := Some task1, taskToDelete := Some ''id123''\<rparr>"

section \<open>Session store: frame properties\<close>

lemmas effect_defs = router_push_def toast_def axios_def store_def

lemmas store_defs = setToken_def setUser_def clearAuth_def set_state_def merge_def


section \<open>Login\<close>

text \<open>
  C3. For every successful login response, once \<open>onSubmit\<close> has run the store's token
  is the response's token field, its user is the response's user field, and the route
  pushed is the protected root.
\<close>

theorem login_success_session:
  "token (auth (onSubmit values (Inr data) st)) = r_token data
   \<and> user (auth (onSubmit values (Inr data) st)) = r_user data
   \<and> pushes (onSubmit values (Inr data) st) = pushes st @ [''/'']"
  by (simp add: onSubmit_def Let_def effect_defs store_defs)

text \<open>
  The run of the login form with \<open>a@b.com\<close> and \<open>123456\<close>, answered with the token
  \<open>t1\<close> and the user \<open>u1\<close>.
\<close>

lemma login_end_to_end:
  "onSubmit \<lparr>l_email = ''a@b.com'', l_password = ''123456''\<rparr>
     (Inr \<lparr>r_token = Some ''t1'', r_user = Some user0\<rparr>) initial_App
   = initial_App
      \<lparr>auth := \<lparr>token = Some ''t1'', user = Some user0\<rparr>,
       pushes := [''/''],
       toasts := [toast_success ''Login realizado com sucesso!''],
       requests := [\<lparr>http_method = POST, url = ''http://localhost:3333/user/login'',
                     query = [], authorization = None,
                     body = Some (LoginBody \<lparr>l_email = ''a@b.com'', l_password = ''123456''\<rparr>)\<rparr>]\<rparr>"
  by (simp add: onSubmit_def Let_def effect_defs store_defs initial_App_def
        initial_AuthState_def)

section \<open>Session guard\<close>

text \<open>
  C4. With a token present and no cached user the guard fetches the profile; whatever
  failure that request ends in, the session afterwards is \<open>{token: null, user: null}\<close>,
  the route pushed is the login view, and the guard renders nothing.
\<close>

theorem guard_profile_failure:
  assumes "truthy (token (auth st))" and "user (auth st) = None"
  shows "auth (verifyAuth (Inl error) st) = \<lparr>token = None, user = None\<rparr>
    \<and> pushes (verifyAuth (Inl error) st) = pushes st @ [''/login'']
    \<and> ProtectedLayout (verifyAuth (Inl error) st) = Redirecting
    \<and> requests (verifyAuth (Inl error) st) =
        requests st @ [\<lparr>http_method = GET, url = ''http://localhost:3333/user/profile'', query = [],
                        authorization = Some (Bearer (token (auth st))), body = None\<rparr>]"
  using assms
  by (simp add: verifyAuth_def Let_def effect_defs store_defs ProtectedLayout_def truthy_def)

theorem guard_profile_failure_witness:
  "truthy (token (auth (initial_App\<lparr>auth := \<lparr>token = Some ''t1'', user = None\<rparr>\<rparr>)))
   \<and> auth (verifyAuth (Inl None) (initial_App\<lparr>auth := \<lparr>token = Some ''t1'', user = None\<rparr>\<rparr>))
       = \<lparr>token = None, user = None\<rparr>
   \<and> pushes (verifyAuth (Inl None) (initial_App\<lparr>auth := \<lparr>token = Some ''t1'', user = None\<rparr>\<rparr>))
       = [''/login'']"
  using guard_profile_failure [of "initial_App\<lparr>auth := \<lparr>token = Some ''t1'', user = None\<rparr>\<rparr>" None]
  by (simp add: truthy_def initial_App_def)

section \<open>The list request\<close>

lemma fetchTasks_request_loading:
  "fetchTasks_request (st\<lparr>loadingTasks := b\<rparr>) = fetchTasks_request st"
  by (simp add: fetchTasks_request_def)

text \<open>
  C2, as the code has it. The query of the list request is the page, the page size, then
  the search term when it is not empty, then the status when the filter is not
  \<open>all\<close>. So a status parameter is sent exactly when the filter is a status, a search
  parameter exactly when the search term is not empty, and the page and the page size
  always. With a token, \<open>fetchTasks\<close> issues exactly this request.
\<close>

theorem list_query_parameters:
  "fetchTasks_params p s t f =
     [(''page'', toString p), (''pageSize'', toString s)]
     @ (if t = [] then [] else [(''search'', t)])
     @ (case f of FilterAll \<Rightarrow> [] | FilterStatus x \<Rightarrow> [(''status'', Status_value x)])
   \<and> (''status'' \<in> fst ` set (fetchTasks_params p s t f)) = (f \<noteq> FilterAll)
   \<and> (''search'' \<in> fst ` set (fetchTasks_params p s t f)) = (t \<noteq> [])
   \<and> ''page'' \<in> fst ` set (fetchTasks_params p s t f)
   \<and> ''pageSize'' \<in> fst ` set (fetchTasks_params p s t f)
   \<and> requests (fetchTasks r st) =
       (if truthy (token (auth st)) then requests st @ [fetchTasks_request st] else requests st)
   \<and> query (fetchTasks_request st) =
       fetchTasks_params (currentPage st) (pageSize st) (searchTerm st) (filterStatus st)"
proof -
  have q: "fetchTasks_params p s t f =
     [(''page'', toString p), (''pageSize'', toString s)]
     @ (if t = [] then [] else [(''search'', t)])
     @ (case f of FilterAll \<Rightarrow> [] | FilterStatus x \<Rightarrow> [(''status'', Status_value x)])"
    by (cases f)
       (auto simp: fetchTasks_params_def append_def FilterStatus_value_def Status_value_def
             split: Status.splits)
  have r: "requests (fetchTasks r st) =
       (if truthy (token (auth st)) then requests st @ [fetchTasks_request st] else requests st)"
    by (cases r) (simp_all add: fetchTasks_def Let_def effect_defs fetchTasks_request_loading)
  show ?thesis
    unfolding q using r
    by (cases f) (simp_all add: fetchTasks_request_def)
qed

text \<open>
  C2 as stated fails on the search term: on page 1 with page size 10, an empty search
  term and the filter \<open>all\<close>, the query has the page and the page size and no search
  parameter.
\<close>

theorem list_query_search_counterexample:
  "fetchTasks_params 1 10 [] FilterAll = [(''page'', ''1''), (''pageSize'', ''10'')]
   \<and> ''search'' \<notin> fst ` set (fetchTasks_params 1 10 [] FilterAll)
   \<and> requests (fetchTasks (Inr \<lparr>items = [], totalItems = 0\<rparr>) logged_in) =
       [\<lparr>http_method = GET, url = ''http://localhost:3333/task'',
         query = [(''page'', ''1''), (''pageSize'', ''10'')],
         authorization = Some ''Bearer t1'', body = None\<rparr>]"
  by (simp add: fetchTasks_params_def append_def FilterStatus_value_def toString_def
        toString_nat.simps digit_def fetchTasks_def fetchTasks_request_def Let_def
        effect_defs logged_in_def initial_App_def truthy_def Bearer_def)

text \<open>
  C10. With a null token \<open>fetchTasks\<close> clears the loading flag and does nothing else: no
  request, no change of the session, no navigation, no notification, the cached list
  and count as they were.
\<close>

theorem fetch_without_token:
  assumes "token (auth st) = None"
  shows "fetchTasks response st = st\<lparr>loadingTasks := False\<rparr>
    \<and> requests (fetchTasks response st) = requests st
    \<and> auth (fetchTasks response st) = auth st
    \<and> pushes (fetchTasks response st) = pushes st
    \<and> tasks (fetchTasks response st) = tasks st
    \<and> totalTasks (fetchTasks response st) = totalTasks st
    \<and> toasts (fetchTasks response st) = toasts st
    \<and> \<not> loadingTasks (fetchTasks response st)"
  using assms by (simp add: fetchTasks_def truthy_def)

theorem fetch_without_token_witness:
  "token (auth initial_App) = None
   \<and> fetchTasks (Inr \<lparr>items = [task0], totalItems = 1\<rparr>) initial_App
       = initial_App\<lparr>loadingTasks := False\<rparr>
   \<and> requests (fetchTasks (Inr \<lparr>items = [task0], totalItems = 1\<rparr>) initial_App) = []"
  using fetch_without_token [of initial_App "Inr \<lparr>items = [task0], totalItems = 1\<rparr>"]
  by (simp add: initial_App_def initial_AuthState_def)

section \<open>Pagination\<close>

lemmas double_div_defs =
  double_div_def double_div_pos_def scale_up.simps scale_down.simps round_half_even_def

lemma scale_up_lower: "0 < n \<Longrightarrow> d \<le> n * 2 ^ scale_up n d"
proof (induction n d rule: scale_up.induct)
  case (1 n d)
  show ?case
  proof (cases "n < d")
    case True
    with 1 have "d \<le> (2 * n) * 2 ^ scale_up (2 * n) d" by simp
    moreover have "scale_up n d = Suc (scale_up (2 * n) d)"
      using True 1(2) by (subst scale_up.simps) simp
    ultimately show ?thesis by (simp add: mult.assoc)
  next
    case False
    then have "scale_up n d = 0" by (subst scale_up.simps) simp
    with False show ?thesis by simp
  qed
qed

lemma scale_down_zero: "n < 2 ^ 53 * d \<Longrightarrow> scale_down n d = 0"
  by (subst scale_down.simps) simp

text \<open>Rounding a quotient that is at most an integer \<open>k\<close> gives at most \<open>k\<close>.\<close>

lemma round_half_even_upper:
  assumes "0 < d" and "n \<le> k * d"
  shows "round_half_even n d \<le> k"
proof -
  have q: "n div d \<le> k"
    using assms by (metis div_mult_self_is_m zdiv_mono1 nonzero_mult_div_cancel_right less_irrefl)
  show ?thesis
  proof (cases "n div d = k")
    case True
    have "n = d * (n div d) + n mod d" by simp
    then have "n mod d = n - d * k" using True by (metis add_diff_cancel_left')
    moreover have "0 \<le> n mod d" using assms by simp
    ultimately have "n mod d = 0" using assms(2) by (simp add: mult.commute)
    then show ?thesis using True assms by (simp add: round_half_even_def Let_def)
  next
    case False
    then have "n div d + 1 \<le> k" using q by simp
    then show ?thesis by (simp add: round_half_even_def Let_def)
  qed
qed

text \<open>Rounding a quotient more than a half above an integer \<open>l\<close> gives more than \<open>l\<close>.\<close>

lemma round_half_even_lower:
  assumes "0 < d" and "l * d + x \<le> n" and "d < 2 * x"
  shows "l < round_half_even n d"
proof -
  have x: "0 < x" using assms by linarith
  have "l * d \<le> n" using assms x by linarith
  then have q: "l \<le> n div d"
    using assms(1) by (metis zdiv_mono1 nonzero_mult_div_cancel_right less_irrefl)
  show ?thesis
  proof (cases "n div d = l")
    case True
    have "n = d * (n div d) + n mod d" by simp
    then have "n mod d = n - d * l" using True by (metis add_diff_cancel_left')
    then have "x \<le> n mod d" using assms(2) by (simp add: mult.commute)
    then have "d < 2 * (n mod d)" using assms(3) by linarith
    then show ?thesis using True by (simp add: round_half_even_def Let_def)
  next
    case False
    then have "l < n div d" using q by simp
    then show ?thesis by (simp add: round_half_even_def Let_def)
  qed
qed

lemma ceiling_quotient_bounds:
  fixes a b :: int
  assumes "0 < b"
  shows "(\<lceil>real_of_int a / real_of_int b\<rceil> - 1) * b < a"
    and "a \<le> \<lceil>real_of_int a / real_of_int b\<rceil> * b"
proof -
  let ?n = "\<lceil>real_of_int a / real_of_int b\<rceil>"
  have n: "?n = - ((- a) div b)"
    by (simp add: ceiling_divide_eq_div)
  have eq: "b * ((- a) div b) = - a - (- a) mod b"
    by (simp add: minus_mod_eq_mult_div)
  have r: "0 \<le> (- a) mod b" "(- a) mod b < b"
    using assms by simp_all
  have "(?n - 1) * b = - (b * ((- a) div b)) - b"
    and "?n * b = - (b * ((- a) div b))"
    unfolding n by (simp_all add: algebra_simps)
  then show "(?n - 1) * b < a" and "a \<le> ?n * b"
    using eq r by linarith+
qed

text \<open>
  Below \<open>2^53\<close> the rounding of the quotient never reaches the integer under it: the
  quotient lies at least \<open>1 / b\<close> above that integer, which is more than half a unit
  of the significand.
\<close>

lemma double_div_ceiling:
  assumes a: "0 < a" "a < 2 ^ 53" and b: "0 < b"
  shows "\<lceil>double_div a b\<rceil> = \<lceil>real_of_int a / real_of_int b\<rceil>"
proof -
  let ?k = "\<lceil>real_of_int a / real_of_int b\<rceil>"
  define s where "s = scale_up a (2 ^ 52 * b)"
  define m where "m = round_half_even (a * 2 ^ s) b"
  have "a < 2 ^ 53 * b"
  proof -
    have "a * 1 \<le> a * b" using a b by (intro mult_left_mono) simp_all
    also have "a * b < 2 ^ 53 * b" using a b by (intro mult_strict_right_mono) simp_all
    finally show ?thesis by simp
  qed
  then have t: "scale_down a b = 0"
    by (rule scale_down_zero)
  have dd: "double_div a b = real_of_int m / 2 ^ s"
    using a b t by (simp add: double_div_def double_div_pos_def Let_def s_def m_def)
  have p: "(0::int) < 2 ^ s" by simp
  have lo: "(?k - 1) * b + 1 \<le> a" and hi: "a \<le> ?k * b"
    using ceiling_quotient_bounds [OF b, of a] by simp_all
  have "2 ^ 52 * b \<le> a * 2 ^ s"
    unfolding s_def using a(1) by (rule scale_up_lower)
  also have "a * 2 ^ s < 2 ^ 53 * 2 ^ s"
    using a(2) p by (intro mult_strict_right_mono)
  finally have half: "b < 2 * 2 ^ s" by simp
  have "((?k - 1) * b + 1) * 2 ^ s \<le> a * 2 ^ s"
    using lo p by (intro mult_right_mono) simp_all
  then have "((?k - 1) * 2 ^ s) * b + 2 ^ s \<le> a * 2 ^ s"
    by (simp add: algebra_simps)
  then have m_lo: "(?k - 1) * 2 ^ s < m"
    unfolding m_def using b half by (intro round_half_even_lower [where x = "2 ^ s"]) simp_all
  have "a * 2 ^ s \<le> (?k * b) * 2 ^ s"
    using hi p by (intro mult_right_mono) simp_all
  then have "a * 2 ^ s \<le> (?k * 2 ^ s) * b"
    by (simp add: algebra_simps)
  then have m_hi: "m \<le> ?k * 2 ^ s"
    unfolding m_def using b by (intro round_half_even_upper) simp_all
  have "real_of_int ((?k - 1) * 2 ^ s) < real_of_int m"
    using m_lo by (simp only: of_int_less_iff)
  then have r_lo: "real_of_int ?k - 1 < real_of_int m / 2 ^ s"
    by (simp add: field_simps)
  have "real_of_int m \<le> real_of_int (?k * 2 ^ s)"
    using m_hi by (simp only: of_int_le_iff)
  then have r_hi: "real_of_int m / 2 ^ s \<le> real_of_int ?k"
    by (simp add: field_simps)
  show ?thesis
    unfolding dd using r_lo r_hi by (rule ceiling_unique)
qed

text \<open>
  C5, as the code has it. For a count of tasks from 0 up to \<open>2^53\<close> (excluded) and a
  positive page size, the total page count is the ceiling of their quotient: the least
  \<open>n\<close> with \<open>totalTasks \<le> n * pageSize\<close>. For no tasks it is 0, and the pagination
  controls are not rendered.
\<close>

theorem total_pages_ceiling:
  assumes "0 \<le> totalTasks st" and "totalTasks st < 2 ^ 53" and "0 < pageSize st"
  shows "totalPages st = Some \<lceil>real_of_int (totalTasks st) / real_of_int (pageSize st)\<rceil>
    \<and> (\<exists>n. totalPages st = Some n \<and> 0 \<le> n
          \<and> (n - 1) * pageSize st < totalTasks st \<and> totalTasks st \<le> n * pageSize st)
    \<and> (totalTasks st = 0 \<longrightarrow> totalPages st = Some 0 \<and> \<not> Pagination_rendered st)"
proof -
  let ?a = "totalTasks st" and ?b = "pageSize st"
  let ?n = "\<lceil>real_of_int ?a / real_of_int ?b\<rceil>"
  have tp: "totalPages st = Some ?n"
  proof (cases "?a = 0")
    case True
    then show ?thesis
      using assms by (simp add: totalPages_def double_div_def)
  next
    case False
    then have "0 < ?a" using assms by simp
    then have "\<lceil>double_div ?a ?b\<rceil> = ?n"
      using assms by (intro double_div_ceiling)
    then show ?thesis
      using assms by (simp add: totalPages_def)
  qed
  have lo: "(?n - 1) * ?b < ?a" and hi: "?a \<le> ?n * ?b"
    using ceiling_quotient_bounds [OF assms(3), of ?a] by simp_all
  have "0 \<le> real_of_int ?a / real_of_int ?b"
    using assms by simp
  then have nn: "0 \<le> ?n"
    by (simp add: zero_le_ceiling)
  have z: "?a = 0 \<longrightarrow> totalPages st = Some 0 \<and> \<not> Pagination_rendered st"
    using tp by (simp add: Pagination_rendered_def)
  show ?thesis using tp lo hi nn z by simp
qed

theorem total_pages_ceiling_witness:
  "totalPages (logged_in\<lparr>totalTasks := 25\<rparr>) = Some 3
   \<and> totalPages (logged_in\<lparr>loadingTasks := False, tasks := [task0]\<rparr>) = Some 0
   \<and> \<not> Pagination_rendered (logged_in\<lparr>loadingTasks := False, tasks := [task0]\<rparr>)"
  using total_pages_ceiling [of "logged_in\<lparr>totalTasks := 25\<rparr>"]
    total_pages_ceiling [of "logged_in\<lparr>loadingTasks := False, tasks := [task0]\<rparr>"]
  by (simp add: logged_in_def initial_App_def)

text \<open>
  C5 as stated, for every count, fails on the rounding of the quotient: with
  22517998136852492 tasks, a count a double holds, and the page size 10, the double
  quotient is 2251799813685249 exactly and so is the page count, where the ceiling of the
  quotient is 2251799813685250.
\<close>

theorem total_pages_rounding_counterexample:
  "totalPages (logged_in\<lparr>totalTasks := 22517998136852492\<rparr>) = Some 2251799813685249
   \<and> \<lceil>real_of_int (totalTasks (logged_in\<lparr>totalTasks := 22517998136852492\<rparr>))
        / real_of_int (pageSize (logged_in\<lparr>totalTasks := 22517998136852492\<rparr>))\<rceil>
      = 2251799813685250
   \<and> 0 \<le> totalTasks (logged_in\<lparr>totalTasks := 22517998136852492\<rparr>)
   \<and> 0 < pageSize (logged_in\<lparr>totalTasks := 22517998136852492\<rparr>)"
  by (simp add: totalPages_def double_div_defs Let_def logged_in_def initial_App_def)

text \<open>
  C6. On a current page within \<open>[1, totalPages]\<close> the previous control sets the page to
  \<open>max 1 (page - 1)\<close> and the next control to \<open>min totalPages (page + 1)\<close>; either
  result is within \<open>[1, totalPages]\<close>. The previous control is disabled exactly on page
  1, where it would leave the page at 1, and the next control exactly on the last page,
  where it would leave the page there.
\<close>

theorem page_controls_clamp:
  assumes "totalPages st = Some tp" and "1 \<le> currentPage st" and "currentPage st \<le> tp"
  shows "currentPage (setCurrentPage PaginationPrevious_onClick st) = max 1 (currentPage st - 1)
    \<and> currentPage (setCurrentPage (PaginationNext_onClick tp) st) = min tp (currentPage st + 1)
    \<and> 1 \<le> currentPage (setCurrentPage PaginationPrevious_onClick st)
    \<and> currentPage (setCurrentPage PaginationPrevious_onClick st) \<le> tp
    \<and> 1 \<le> currentPage (setCurrentPage (PaginationNext_onClick tp) st)
    \<and> currentPage (setCurrentPage (PaginationNext_onClick tp) st) \<le> tp
    \<and> PaginationPrevious_disabled st = (currentPage st = 1)
    \<and> PaginationNext_disabled tp st = (currentPage st = tp)
    \<and> (currentPage st = 1 \<longrightarrow>
          currentPage (setCurrentPage PaginationPrevious_onClick st) = 1)
    \<and> (currentPage st = tp \<longrightarrow>
          currentPage (setCurrentPage (PaginationNext_onClick tp) st) = tp)"
  using assms
  by (auto simp: setCurrentPage_def PaginationPrevious_onClick_def PaginationNext_onClick_def
        PaginationPrevious_disabled_def PaginationNext_disabled_def)

theorem page_controls_clamp_witness:
  "totalPages (logged_in\<lparr>totalTasks := 25\<rparr>) = Some 3
   \<and> currentPage (setCurrentPage PaginationPrevious_onClick (logged_in\<lparr>totalTasks := 25\<rparr>)) = 1
   \<and> currentPage (setCurrentPage (PaginationNext_onClick 3) (logged_in\<lparr>totalTasks := 25\<rparr>)) = 2
   \<and> PaginationPrevious_disabled (logged_in\<lparr>totalTasks := 25\<rparr>)
   \<and> currentPage (setCurrentPage (PaginationNext_onClick 3)
        (logged_in\<lparr>totalTasks := 25, currentPage := 3\<rparr>)) = 3
   \<and> PaginationNext_disabled 3 (logged_in\<lparr>totalTasks := 25, currentPage := 3\<rparr>)"
  using page_controls_clamp [of "logged_in\<lparr>totalTasks := 25\<rparr>" 3]
    page_controls_clamp [of "logged_in\<lparr>totalTasks := 25, currentPage := 3\<rparr>" 3]
  by (simp add: logged_in_def initial_App_def totalPages_def double_div_defs Let_def)

section \<open>Creating a task\<close>

lemma fetchTasks_request_cong:
  "auth st' = auth st \<Longrightarrow> currentPage st' = currentPage st \<Longrightarrow> pageSize st' = pageSize st
   \<Longrightarrow> searchTerm st' = searchTerm st \<Longrightarrow> filterStatus st' = filterStatus st
   \<Longrightarrow> fetchTasks_request st' = fetchTasks_request st"
  by (simp add: fetchTasks_request_def)

lemma requests_fetchTasks:
  "requests (fetchTasks r st) =
       (if truthy (token (auth st)) then requests st @ [fetchTasks_request st] else requests st)"
  by (cases r) (simp_all add: fetchTasks_def Let_def effect_defs fetchTasks_request_loading)

lemma isCreating_fetchTasks: "isCreating (fetchTasks r st) = isCreating st"
  by (cases r) (simp_all add: fetchTasks_def Let_def effect_defs store_defs)

lemma createTaskForm_fetchTasks: "createTaskForm (fetchTasks r st) = createTaskForm st"
  by (cases r) (simp_all add: fetchTasks_def Let_def effect_defs store_defs)

text \<open>
  C7, as the code has it. Submitting the creation form issues no request unless the title
  has at least 3 characters; the description is optional. On a successful POST the
  handler closes the dialog, resets the form to its default values and calls
  \<open>fetchTasks\<close> once, which with a token present issues exactly one list request for
  the current page. The body of the POST is the form's values as they are: a form whose
  description is still the default of \<open>createTask_defaultValues\<close>, the empty string,
  posts the empty string as the description.
\<close>

theorem create_task_submission:
  "(length (c_title (createTaskForm st)) < 3 \<longrightarrow>
      requests (createTaskForm_handleSubmit response list_response st) = requests st)
   \<and> (requests (createTaskForm_handleSubmit response list_response st) \<noteq> requests st \<longrightarrow>
        3 \<le> length (c_title (createTaskForm st)))
   \<and> (3 \<le> length (c_title (createTaskForm st)) \<longrightarrow>
        createTaskForm_handleSubmit (Inr ()) list_response st =
          fetchTasks list_response
            (st\<lparr>createTaskErrors := [],
                requests := requests st @
                  [\<lparr>http_method = POST, url = ''http://localhost:3333/task'', query = [],
                    authorization = Some (Bearer (token (auth st))),
                    body = Some (CreateBody (createTaskForm st))\<rparr>],
                toasts := toasts st @ [toast_success ''Tarefa criada com sucesso!''],
                createTaskForm := createTask_defaultValues,
                isCreating := False\<rparr>)
        \<and> \<not> isCreating (createTaskForm_handleSubmit (Inr ()) list_response st)
        \<and> createTaskForm (createTaskForm_handleSubmit (Inr ()) list_response st)
            = createTask_defaultValues
        \<and> requests (createTaskForm_handleSubmit (Inr ()) list_response st) =
            requests st @
              [\<lparr>http_method = POST, url = ''http://localhost:3333/task'', query = [],
                authorization = Some (Bearer (token (auth st))),
                body = Some (CreateBody (createTaskForm st))\<rparr>]
              @ (if truthy (token (auth st)) then [fetchTasks_request st] else [])
        \<and> (c_description (createTaskForm st) = c_description createTask_defaultValues \<longrightarrow>
             body (requests (createTaskForm_handleSubmit (Inr ()) list_response st)
                     ! length (requests st)) =
               Some (CreateBody \<lparr>c_title = c_title (createTaskForm st),
                                 c_description = Some []\<rparr>)))"
proof -
  let ?v = "createTaskForm st"
  let ?post = "\<lparr>http_method = POST, url = ''http://localhost:3333/task'', query = [],
                 authorization = Some (Bearer (token (auth st))),
                 body = Some (CreateBody ?v)\<rparr>"
  let ?st' = "st\<lparr>createTaskErrors := [],
                requests := requests st @ [?post],
                toasts := toasts st @ [toast_success ''Tarefa criada com sucesso!''],
                createTaskForm := createTask_defaultValues,
                isCreating := False\<rparr>"
  let ?out = "createTaskForm_handleSubmit (Inr ()) list_response st"
  have c1: "length (c_title ?v) < 3 \<longrightarrow>
      requests (createTaskForm_handleSubmit response list_response st) = requests st"
    by (simp add: createTaskForm_handleSubmit_def createTaskSchema_def)
  have c2: "requests (createTaskForm_handleSubmit response list_response st) \<noteq> requests st \<longrightarrow>
        3 \<le> length (c_title ?v)"
    using c1 by (cases "3 \<le> length (c_title ?v)") simp_all
  have c3: "3 \<le> length (c_title ?v) \<longrightarrow>
        ?out = fetchTasks list_response ?st'
        \<and> \<not> isCreating ?out
        \<and> createTaskForm ?out = createTask_defaultValues
        \<and> requests ?out =
            requests st @ [?post] @ (if truthy (token (auth st)) then [fetchTasks_request st] else [])
        \<and> (c_description ?v = c_description createTask_defaultValues \<longrightarrow>
             body (requests ?out ! length (requests st)) =
               Some (CreateBody \<lparr>c_title = c_title ?v, c_description = Some []\<rparr>))"
  proof
    assume long: "3 \<le> length (c_title ?v)"
    have ok: "?out = fetchTasks list_response ?st'"
      using long
      by (simp add: createTaskForm_handleSubmit_def createTaskSchema_def handleCreateTask_def
            Let_def effect_defs handleCreateTask_request_def)
    have req: "fetchTasks_request ?st' = fetchTasks_request st"
      by (rule fetchTasks_request_cong) simp_all
    have reqs: "requests ?out =
        requests st @ [?post] @ (if truthy (token (auth st)) then [fetchTasks_request st] else [])"
      unfolding ok by (simp add: requests_fetchTasks req)
    have nth: "requests ?out ! length (requests st) = ?post"
      unfolding reqs by (simp add: nth_append)
    have dflt: "c_description ?v = c_description createTask_defaultValues \<longrightarrow>
        body (requests ?out ! length (requests st)) =
          Some (CreateBody \<lparr>c_title = c_title ?v, c_description = Some []\<rparr>)"
      unfolding nth by (simp add: createTask_defaultValues_def)
    show "?out = fetchTasks list_response ?st'
        \<and> \<not> isCreating ?out
        \<and> createTaskForm ?out = createTask_defaultValues
        \<and> requests ?out =
            requests st @ [?post] @ (if truthy (token (auth st)) then [fetchTasks_request st] else [])
        \<and> (c_description ?v = c_description createTask_defaultValues \<longrightarrow>
             body (requests ?out ! length (requests st)) =
               Some (CreateBody \<lparr>c_title = c_title ?v, c_description = Some []\<rparr>))"
      using reqs dflt
      by (simp add: ok isCreating_fetchTasks createTaskForm_fetchTasks)
  qed
  show ?thesis
    using c1 c2 c3 by blast
qed

theorem create_task_submission_witness:
  "createTaskForm_handleSubmit (Inr ()) (Inr \<lparr>items = [task0], totalItems = 1\<rparr>)
      (logged_in\<lparr>createTaskForm := createTask_defaultValues\<lparr>c_title := ''Buy milk''\<rparr>,
                 isCreating := True\<rparr>)
    = logged_in\<lparr>requests :=
         [\<lparr>http_method = POST, url = ''http://localhost:3333/task'', query = [],
           authorization = Some ''Bearer t1'',
           body = Some (CreateBody \<lparr>c_title = ''Buy milk'', c_description = Some []\<rparr>)\<rparr>,
          \<lparr>http_method = GET, url = ''http://localhost:3333/task'',
           query = [(''page'', ''1''), (''pageSize'', ''10'')],
           authorization = Some ''Bearer t1'', body = None\<rparr>],
        toasts := [toast_success ''Tarefa criada com sucesso!''],
        tasks := [task0], totalTasks := 1, loadingTasks := False\<rparr>
   \<and> requests (createTaskForm_handleSubmit (Inr ()) (Inr \<lparr>items = [task0], totalItems = 1\<rparr>)
        (logged_in\<lparr>createTaskForm := createTask_defaultValues\<lparr>c_title := ''Bu''\<rparr>\<rparr>)) = []"
  using create_task_submission
      [of "logged_in\<lparr>createTaskForm := createTask_defaultValues\<lparr>c_title := ''Buy milk''\<rparr>,
                 isCreating := True\<rparr>" "Inr ()" "Inr \<lparr>items = [task0], totalItems = 1\<rparr>"]
    create_task_submission
      [of "logged_in\<lparr>createTaskForm := createTask_defaultValues\<lparr>c_title := ''Bu''\<rparr>\<rparr>"
          "Inr ()" "Inr \<lparr>items = [task0], totalItems = 1\<rparr>"]
  by (simp add: logged_in_def initial_App_def initial_AuthState_def truthy_def
        fetchTasks_def Let_def effect_defs fetchTasks_request_def fetchTasks_params_def
        append_def FilterStatus_value_def toString_def toString_nat.simps digit_def
        Bearer_def createTask_defaultValues_def)

text \<open>
  C7 as stated fails on the description of a task created with only a title: the form
  starts from its default values, the title \<open>Buy milk\<close> is typed and the description
  left as it is, and the POST carries the empty string as the description, not
  undefined.
\<close>

theorem create_task_description_counterexample:
  "body (requests
          (createTaskForm_handleSubmit (Inr ()) (Inr \<lparr>items = [task0], totalItems = 1\<rparr>)
            (logged_in\<lparr>createTaskForm := createTask_defaultValues\<lparr>c_title := ''Buy milk''\<rparr>,
                       isCreating := True\<rparr>)) ! 0)
     = Some (CreateBody \<lparr>c_title = ''Buy milk'', c_description = Some []\<rparr>)
   \<and> body (requests
          (createTaskForm_handleSubmit (Inr ()) (Inr \<lparr>items = [task0], totalItems = 1\<rparr>)
            (logged_in\<lparr>createTaskForm := createTask_defaultValues\<lparr>c_title := ''Buy milk''\<rparr>,
                       isCreating := True\<rparr>)) ! 0)
     \<noteq> Some (CreateBody \<lparr>c_title = ''Buy milk'', c_description = None\<rparr>)"
  by (simp add: createTaskForm_handleSubmit_def createTaskSchema_def handleCreateTask_def
        handleCreateTask_request_def fetchTasks_def fetchTasks_request_def Let_def effect_defs
        logged_in_def initial_App_def truthy_def createTask_defaultValues_def)

section \<open>Request failures\<close>

text \<open>
  C8. When a login, list, create, update or delete request fails with anything but an
  HTTP 401 (another status, or no response at all), the session is what it was, no
  route is pushed, and one error notification is shown.
\<close>

theorem request_failure_keeps_session:
  assumes "\<not> is_401 error"
  shows "auth (onSubmit login_values (Inl error) st) = auth st
    \<and> pushes (onSubmit login_values (Inl error) st) = pushes st
    \<and> toasts (onSubmit login_values (Inl error) st) =
        toasts st @ [toast_error (error_message error ''Erro ao fazer login. Tente novamente.'')]
    \<and> auth (fetchTasks (Inl error) st) = auth st
    \<and> pushes (fetchTasks (Inl error) st) = pushes st
    \<and> (truthy (token (auth st)) \<longrightarrow>
         toasts (fetchTasks (Inl error) st) =
           toasts st @ [toast_error (error_message error ''Erro ao carregar tarefas.'')])
    \<and> auth (handleCreateTask create_values (Inl error) list_response st) = auth st
    \<and> pushes (handleCreateTask create_values (Inl error) list_response st) = pushes st
    \<and> toasts (handleCreateTask create_values (Inl error) list_response st) =
        toasts st @ [toast_error (error_message error ''Erro ao criar tarefa.'')]
    \<and> auth (handleUpdateTask update_values (Inl error) list_response st) = auth st
    \<and> pushes (handleUpdateTask update_values (Inl error) list_response st) = pushes st
    \<and> (editingTask st \<noteq> None \<longrightarrow>
         toasts (handleUpdateTask update_values (Inl error) list_response st) =
           toasts st @ [toast_error (error_message error ''Erro ao atualizar tarefa.'')])
    \<and> auth (handleDeleteTask (Inl error) list_response st) = auth st
    \<and> pushes (handleDeleteTask (Inl error) list_response st) = pushes st
    \<and> (truthy (taskToDelete st) \<longrightarrow>
         toasts (handleDeleteTask (Inl error) list_response st) =
           toasts st @ [toast_error (error_message error ''Erro ao excluir tarefa.'')])"
proof -
  have login: "auth (onSubmit login_values (Inl error) st) = auth st
    \<and> pushes (onSubmit login_values (Inl error) st) = pushes st
    \<and> toasts (onSubmit login_values (Inl error) st) =
        toasts st @ [toast_error (error_message error ''Erro ao fazer login. Tente novamente.'')]"
    by (simp add: onSubmit_def Let_def effect_defs)
  have list: "auth (fetchTasks (Inl error) st) = auth st
    \<and> pushes (fetchTasks (Inl error) st) = pushes st
    \<and> (truthy (token (auth st)) \<longrightarrow>
         toasts (fetchTasks (Inl error) st) =
           toasts st @ [toast_error (error_message error ''Erro ao carregar tarefas.'')])"
    using assms by (simp add: fetchTasks_def Let_def effect_defs)
  have create: "auth (handleCreateTask create_values (Inl error) list_response st) = auth st
    \<and> pushes (handleCreateTask create_values (Inl error) list_response st) = pushes st
    \<and> toasts (handleCreateTask create_values (Inl error) list_response st) =
        toasts st @ [toast_error (error_message error ''Erro ao criar tarefa.'')]"
    by (simp add: handleCreateTask_def Let_def effect_defs)
  have update: "auth (handleUpdateTask update_values (Inl error) list_response st) = auth st
    \<and> pushes (handleUpdateTask update_values (Inl error) list_response st) = pushes st
    \<and> (editingTask st \<noteq> None \<longrightarrow>
         toasts (handleUpdateTask update_values (Inl error) list_response st) =
           toasts st @ [toast_error (error_message error ''Erro ao atualizar tarefa.'')])"
    by (cases "editingTask st") (simp_all add: handleUpdateTask_def Let_def effect_defs)
  have delete: "auth (handleDeleteTask (Inl error) list_response st) = auth st
    \<and> pushes (handleDeleteTask (Inl error) list_response st) = pushes st
    \<and> (truthy (taskToDelete st) \<longrightarrow>
         toasts (handleDeleteTask (Inl error) list_response st) =
           toasts st @ [toast_error (error_message error ''Erro ao excluir tarefa.'')])"
    by (cases "taskToDelete st")
       (simp_all add: handleDeleteTask_def Let_def effect_defs truthy_def)
  show ?thesis
    using login list create update delete by blast
qed

theorem request_failure_keeps_session_witness:
  "\<not> is_401 (Some \<lparr>status = 500, message = Some ''boom''\<rparr>)
   \<and> truthy (token (auth selected)) \<and> editingTask selected \<noteq> None \<and> truthy (taskToDelete selected)
   \<and> auth (onSubmit \<lparr>l_email = ''a@b.com'', l_password = ''123456''\<rparr>
             (Inl (Some \<lparr>status = 500, message = Some ''boom''\<rparr>)) selected)
        = \<lparr>token = Some ''t1'', user = Some user0\<rparr>
   \<and> toasts (onSubmit \<lparr>l_email = ''a@b.com'', l_password = ''123456''\<rparr>
             (Inl (Some \<lparr>status = 500, message = Some ''boom''\<rparr>)) selected)
        = [toast_error ''boom'']
   \<and> pushes (handleCreateTask \<lparr>c_title = ''Buy milk'', c_description = None\<rparr>
             (Inl (Some \<lparr>status = 500, message = Some ''boom''\<rparr>)) (Inl None) selected) = []
   \<and> toasts (handleCreateTask \<lparr>c_title = ''Buy milk'', c_description = None\<rparr>
             (Inl (Some \<lparr>status = 500, message = Some ''boom''\<rparr>)) (Inl None) selected)
        = [toast_error ''boom'']
   \<and> auth (fetchTasks (Inl (Some \<lparr>status = 500, message = Some ''boom''\<rparr>)) selected)
        = \<lparr>token = Some ''t1'', user = Some user0\<rparr>
   \<and> pushes (fetchTasks (Inl (Some \<lparr>status = 500, message = Some ''boom''\<rparr>)) selected) = []
   \<and> toasts (fetchTasks (Inl (Some \<lparr>status = 500, message = Some ''boom''\<rparr>)) selected)
        = [toast_error ''boom'']
   \<and> toasts (handleDeleteTask (Inl (Some \<lparr>status = 500, message = Some ''boom''\<rparr>)) (Inl None) selected)
        = [toast_error ''boom'']
   \<and> toasts (handleUpdateTask \<lparr>u_id = ''123e4567-e89b-12d3-a456-426614174000'', u_title = None, u_description = None,
               u_status = Some CONCLUIDO\<rparr>
             (Inl (Some \<lparr>status = 500, message = Some ''boom''\<rparr>)) (Inl None) selected)
        = [toast_error ''boom'']"
  using request_failure_keeps_session
    [of "Some \<lparr>status = 500, message = Some ''boom''\<rparr>"
        "\<lparr>l_email = ''a@b.com'', l_password = ''123456''\<rparr>" selected
        "\<lparr>c_title = ''Buy milk'', c_description = None\<rparr>" "Inl None"
        "\<lparr>u_id = ''123e4567-e89b-12d3-a456-426614174000'', u_title = None, u_description = None, u_status = Some CONCLUIDO\<rparr>"]
  by (simp add: is_401_def selected_def logged_in_def initial_App_def truthy_def error_message_def)

text \<open>
  C1 at a concrete input: the create, update and delete requests of a logged-in view
  answered with HTTP 401. The three handlers leave the session and the navigation as
  they were, where the list request answered with the same 401 clears the session and
  pushes the login view.
\<close>

theorem unauthorized_mutation_keeps_session:
  "auth (handleCreateTask \<lparr>c_title = ''Buy milk'', c_description = None\<rparr>
           (Inl (Some \<lparr>status = 401, message = None\<rparr>)) (Inl None) selected)
     = \<lparr>token = Some ''t1'', user = Some user0\<rparr>
   \<and> pushes (handleCreateTask \<lparr>c_title = ''Buy milk'', c_description = None\<rparr>
           (Inl (Some \<lparr>status = 401, message = None\<rparr>)) (Inl None) selected) = []
   \<and> auth (handleUpdateTask \<lparr>u_id = ''123e4567-e89b-12d3-a456-426614174000'', u_title = None, u_description = None,
               u_status = Some CONCLUIDO\<rparr>
           (Inl (Some \<lparr>status = 401, message = None\<rparr>)) (Inl None) selected)
     = \<lparr>token = Some ''t1'', user = Some user0\<rparr>
   \<and> pushes (handleUpdateTask \<lparr>u_id = ''123e4567-e89b-12d3-a456-426614174000'', u_title = None, u_description = None,
               u_status = Some CONCLUIDO\<rparr>
           (Inl (Some \<lparr>status = 401, message = None\<rparr>)) (Inl None) selected) = []
   \<and> auth (handleDeleteTask (Inl (Some \<lparr>status = 401, message = None\<rparr>)) (Inl None) selected)
     = \<lparr>token = Some ''t1'', user = Some user0\<rparr>
   \<and> pushes (handleDeleteTask (Inl (Some \<lparr>status = 401, message = None\<rparr>)) (Inl None) selected)
     = []
   \<and> auth (fetchTasks (Inl (Some \<lparr>status = 401, message = None\<rparr>)) selected)
     = \<lparr>token = None, user = None\<rparr>
   \<and> pushes (fetchTasks (Inl (Some \<lparr>status = 401, message = None\<rparr>)) selected) = [''/login'']"
  by (simp add: handleCreateTask_def handleUpdateTask_def handleDeleteTask_def fetchTasks_def
        Let_def effect_defs store_defs selected_def logged_in_def initial_App_def truthy_def
        is_401_def task1_def)

text \<open>
  The two calls that do treat a 401 as the end of the session: the list request here,
  and the guard's profile request above (for every failure).
\<close>

lemma unauthorized_list_and_profile:
  "is_401 error \<Longrightarrow> truthy (token (auth st)) \<Longrightarrow>
     auth (fetchTasks (Inl error) st) = \<lparr>token = None, user = None\<rparr>
     \<and> pushes (fetchTasks (Inl error) st) = pushes st @ [''/login'']"
  by (simp add: fetchTasks_def Let_def effect_defs store_defs)

end
